theory Spec2Isabelle
  imports Main
begin

section \<open>Python values used by the notebooks\<close>

text \<open>
  The two notebooks are linear Python scripts.  A dictionary lookup \<^verbatim>\<open>d[k]\<close> on a
  missing key raises \<^verbatim>\<open>KeyError\<close>; that is the only exception the notebooks' own
  statements can raise, and it is a value of the model.
\<close>

datatype py_error = KeyError int

text \<open>
  \<^verbatim>\<open>"{}".format(i)\<close> on an integer writes its decimal digits, with a leading minus
  sign for a negative number.
\<close>

definition digit_char :: "nat \<Rightarrow> char" where
  "digit_char d = ''0123456789'' ! d"

function str_nat :: "nat \<Rightarrow> string" where
  "str_nat n = (if n < 10 then [digit_char n] else str_nat (n div 10) @ [digit_char (n mod 10)])"
  by pat_completeness auto
termination
  by (relation "measure (\<lambda>n. n)") auto

declare str_nat.simps [simp del]

definition str_int :: "int \<Rightarrow> string" where
  "str_int i = (if i < 0 then ''-'' @ str_nat (nat (- i)) else str_nat (nat i))"

section \<open>The CSP notebook: 3-coloring with a constraint solver\<close>

subsection \<open>The interface of the constraint library, as the notebook uses it\<close>

text \<open>
  The notebook talks to the library through \<^verbatim>\<open>CpModel()\<close>, \<^verbatim>\<open>model.NewIntVar\<close>,
  \<^verbatim>\<open>model.Add\<close>, the operator \<^verbatim>\<open>!=\<close> on two variables, \<^verbatim>\<open>CpSolver()\<close>,
  \<^verbatim>\<open>solver.Solve\<close> and \<^verbatim>\<open>solver.Value\<close>.  The model object is the record of what
  has been registered with it: the declared variables, in order of creation, and the
  added constraints, in order of addition.  A variable handle is the position of its
  declaration in the model.
\<close>

record int_var_decl =
  var_lb :: int
  var_ub :: int
  var_name :: string

datatype int_var = IntVar (var_index: nat)

text \<open>\<^verbatim>\<open>a != b\<close> on two variables builds the expression that \<^verbatim>\<open>model.Add\<close> registers.\<close>

datatype constraint = NotEqual int_var int_var

record cp_model =
  variables :: "int_var_decl list"
  constraints :: "constraint list"

definition CpModel :: cp_model where
  "CpModel = \<lparr>variables = [], constraints = []\<rparr>"

definition NewIntVar :: "int \<Rightarrow> int \<Rightarrow> string \<Rightarrow> cp_model \<Rightarrow> int_var \<times> cp_model" where
  "NewIntVar lb ub name m =
     (IntVar (length (variables m)),
      m\<lparr>variables := variables m @ [\<lparr>var_lb = lb, var_ub = ub, var_name = name\<rparr>]\<rparr>)"

definition Add :: "constraint \<Rightarrow> cp_model \<Rightarrow> cp_model" where
  "Add c m = m\<lparr>constraints := constraints m @ [c]\<rparr>"

text \<open>
  The status values a call of \<^verbatim>\<open>solver.Solve\<close> can return, and what the solver holds
  afterwards: the status and the value it gives to each variable of the model.
  The search itself is the library's; the notebook is a function of what it answers.
\<close>

datatype cp_status = UNKNOWN | MODEL_INVALID | FEASIBLE | INFEASIBLE | OPTIMAL

record cp_solver =
  status :: cp_status
  solution :: "nat \<Rightarrow> int"

definition Value :: "(nat \<Rightarrow> int) \<Rightarrow> int_var \<Rightarrow> int" where
  "Value s v = s (var_index v)"

text \<open>
  The solver reports a solution with two of its statuses: \<open>FEASIBLE\<close>, a solution was
  found, and \<open>OPTIMAL\<close>, a solution was found and the search is complete.
\<close>

definition reports_solution :: "cp_status \<Rightarrow> bool" where
  "reports_solution st = (st = FEASIBLE \<or> st = OPTIMAL)"

text \<open>
  What it means for an assignment of the model's variables to meet the model, as the
  library reads it: a registered \<^verbatim>\<open>a != b\<close> holds when the two variables take different
  values, and a variable created by \<^verbatim>\<open>NewIntVar(lb, ub, name)\<close> takes a value between
  \<^verbatim>\<open>lb\<close> and \<^verbatim>\<open>ub\<close>.
\<close>

fun holds :: "(nat \<Rightarrow> int) \<Rightarrow> constraint \<Rightarrow> bool" where
  "holds s (NotEqual a b) = (Value s a \<noteq> Value s b)"

definition satisfies :: "cp_model \<Rightarrow> (nat \<Rightarrow> int) \<Rightarrow> bool" where
  "satisfies m s = list_all (holds s) (constraints m)"

definition in_domains :: "cp_model \<Rightarrow> (nat \<Rightarrow> int) \<Rightarrow> bool" where
  "in_domains m s =
     list_all (\<lambda>k. var_lb (variables m ! k) \<le> s k \<and> s k \<le> var_ub (variables m ! k))
       [0 ..< length (variables m)]"

subsection \<open>The cells of the notebook\<close>

text \<open>Cell 2: the graph.\<close>

definition num_vertices :: int where
  "num_vertices = 4"

definition edges :: "(int \<times> int) list" where
  "edges = [(1, 2), (1, 3), (2, 3), (2, 4), (3, 4)]"

text \<open>
  Cell 3: \<^verbatim>\<open>vars = dict()\<close>, then one \<^verbatim>\<open>NewIntVar(1, 3, "x{}".format(i))\<close> for each
  \<^verbatim>\<open>i in range(1, num_vertices+1)\<close>, stored as \<^verbatim>\<open>vars[i]\<close>.
\<close>

fun create_vars :: "int list \<Rightarrow> (int \<rightharpoonup> int_var) \<Rightarrow> cp_model \<Rightarrow> (int \<rightharpoonup> int_var) \<times> cp_model" where
  "create_vars [] vars m = (vars, m)"
| "create_vars (i # is) vars m =
     (case NewIntVar 1 3 (''x'' @ str_int i) m of
        (v, m') \<Rightarrow> create_vars is (vars(i \<mapsto> v)) m')"

definition cell3 :: "int \<Rightarrow> cp_model \<Rightarrow> (int \<rightharpoonup> int_var) \<times> cp_model" where
  "cell3 nv m = create_vars [1 .. nv] Map.empty m"

text \<open>
  Cell 4: \<^verbatim>\<open>for (i,j) in edges: model.Add(vars[i] != vars[j])\<close>.  The lookup of
  \<^verbatim>\<open>vars[i]\<close> comes first; a missing key ends the cell with \<^verbatim>\<open>KeyError\<close>.
\<close>

fun cell4 :: "(int \<times> int) list \<Rightarrow> (int \<rightharpoonup> int_var) \<Rightarrow> cp_model \<Rightarrow> py_error + cp_model" where
  "cell4 [] vars m = Inr m"
| "cell4 ((i, j) # es) vars m =
     (case vars i of
        None \<Rightarrow> Inl (KeyError i)
      | Some a \<Rightarrow>
          (case vars j of
             None \<Rightarrow> Inl (KeyError j)
           | Some b \<Rightarrow> cell4 es vars (Add (NotEqual a b) m)))"

text \<open>
  Cell 5: solve, then print.  The result is the list of lines printed and the
  exception that ended the cell, if any; lines printed before an exception stay printed.
\<close>

definition color_line :: "int \<Rightarrow> int \<Rightarrow> string" where
  "color_line i c = ''- Vertex '' @ str_int i @ '' gets color '' @ str_int c"

fun print_colors :: "(nat \<Rightarrow> int) \<Rightarrow> (int \<rightharpoonup> int_var) \<Rightarrow> int list \<Rightarrow> string list \<times> py_error option" where
  "print_colors s vars [] = ([], None)"
| "print_colors s vars (i # is) =
     (case vars i of
        None \<Rightarrow> ([], Some (KeyError i))
      | Some v \<Rightarrow>
          (case print_colors s vars is of
             (ls, e) \<Rightarrow> (color_line i (Value s v) # ls, e)))"

definition cell5 :: "(cp_model \<Rightarrow> cp_solver) \<Rightarrow> cp_model \<Rightarrow> (int \<rightharpoonup> int_var) \<Rightarrow> int
    \<Rightarrow> string list \<times> py_error option" where
  "cell5 Solve m vars nv =
     (let solver = Solve m; answer = status solver in
      if answer = FEASIBLE then
        (case print_colors (solution solver) vars [1 .. nv] of
           (ls, e) \<Rightarrow> (''The graph is 3-colorable:'' # ls, e))
      else ([''The graph is not 3-colorable!''], None))"

text \<open>Cells 1 to 4 build the instance; the whole notebook then solves and prints.\<close>

definition csp_instance :: "int \<Rightarrow> (int \<times> int) list \<Rightarrow> py_error + cp_model \<times> (int \<rightharpoonup> int_var)" where
  "csp_instance nv es =
     (case cell3 nv CpModel of
        (vars, m) \<Rightarrow>
          (case cell4 es vars m of
             Inl e \<Rightarrow> Inl e
           | Inr m' \<Rightarrow> Inr (m', vars)))"

definition csp_notebook :: "(cp_model \<Rightarrow> cp_solver) \<Rightarrow> string list \<times> py_error option" where
  "csp_notebook Solve =
     (case csp_instance num_vertices edges of
        Inl e \<Rightarrow> ([], Some e)
      | Inr (m, vars) \<Rightarrow> cell5 Solve m vars num_vertices)"

section \<open>The ASP notebook: answer set solving\<close>

subsection \<open>The interface of the answer set solver, as the notebook uses it\<close>

text \<open>Cell 2: the logic program, a Python string literal of five lines.\<close>

definition asp_program :: string where
  "asp_program =
     ''#const k=3.\<newline>number(1..k).\<newline>left(X) :- not right(X), number(X).\<newline>right(X) :- not left(X), number(X).\<newline>:- right(2).''"

text \<open>
  A symbol of the solver, as far as the notebook reads it: \<^verbatim>\<open>atom.name\<close>,
  \<^verbatim>\<open>atom.arguments\<close>, the text that \<^verbatim>\<open>format\<close> writes for the symbol itself
  (its \<^verbatim>\<open>str\<close>) and the text it writes for the symbol inside a list (its \<^verbatim>\<open>repr\<close>).
  Both texts are the library's.
\<close>

datatype symbol =
  Symbol (sym_name: string) (sym_arguments: "symbol list") (sym_str: string) (sym_repr: string)

text \<open>
  The \<^verbatim>\<open>Control\<close> object is the record of what the notebook has done to it, in order:
  \<^verbatim>\<open>control.add(name, params, program)\<close>, \<^verbatim>\<open>control.ground(parts)\<close>, the assignment to
  \<^verbatim>\<open>control.configuration.solve.models\<close> and \<^verbatim>\<open>control.solve\<close>.
\<close>

datatype clingo_call =
    Call_add string "string list" string
  | Call_ground "(string \<times> symbol list) list"
  | Set_solve_models int
  | Call_solve

type_synonym control = "clingo_call list"

definition Control :: control where
  "Control = []"

definition add :: "string \<Rightarrow> string list \<Rightarrow> string \<Rightarrow> control \<Rightarrow> control" where
  "add name params program c = c @ [Call_add name params program]"

definition ground :: "(string \<times> symbol list) list \<Rightarrow> control \<Rightarrow> control" where
  "ground parts c = c @ [Call_ground parts]"

definition set_solve_models :: "int \<Rightarrow> control \<Rightarrow> control" where
  "set_solve_models n c = c @ [Set_solve_models n]"

text \<open>
  What \<^verbatim>\<open>control.solve\<close> returns; \<^verbatim>\<open>satisfiable\<close> is \<^verbatim>\<open>True\<close>, \<^verbatim>\<open>False\<close> or
  \<^verbatim>\<open>None\<close>.
\<close>

record solve_result =
  satisfiable :: "bool option"

subsection \<open>The cells of the notebook\<close>

text \<open>
  Cell 4: \<^verbatim>\<open>on_model\<close> prints one line for each atom of \<^verbatim>\<open>model.symbols(atoms=True)\<close>.
  A model is given by that list of atoms.  \<^verbatim>\<open>format\<close> writes a list in brackets, its
  elements separated by a comma and a space.
\<close>

fun join :: "string \<Rightarrow> string list \<Rightarrow> string" where
  "join sep [] = []"
| "join sep [x] = x"
| "join sep (x # y # ys) = x @ sep @ join sep (y # ys)"

definition str_list :: "symbol list \<Rightarrow> string" where
  "str_list xs = ''['' @ join '', '' (map sym_repr xs) @ '']''"

definition atom_line :: "symbol \<Rightarrow> string" where
  "atom_line atom =
     ''Atom with name '' @ sym_name atom @ '' and arguments '' @ str_list (sym_arguments atom)
       @ '' is true in the model: '' @ sym_str atom"

definition on_model :: "symbol list \<Rightarrow> string list" where
  "on_model model = map atom_line model"

text \<open>Cell 3: create the control object, add the program, ground it.\<close>

definition asp_cell3 :: control where
  "asp_cell3 = ground [(''base'', [])] (add ''base'' [] asp_program Control)"

text \<open>
  Cell 5: ask for one model and solve.  The solver is a parameter: from the control
  object it receives, it gives the models it passes to \<^verbatim>\<open>on_model\<close> and the result it
  returns.  The cell yields the control object, the answer and the lines printed.
\<close>

definition asp_cell5 :: "(control \<Rightarrow> symbol list list \<times> solve_result) \<Rightarrow> control
    \<Rightarrow> control \<times> solve_result \<times> string list" where
  "asp_cell5 solve c =
     (let c1 = set_solve_models 1 c
      in case solve c1 of
           (models, answer) \<Rightarrow> (c1 @ [Call_solve], answer, concat (map on_model models)))"

text \<open>Cell 6: \<^verbatim>\<open>if answer.satisfiable == True\<close>.\<close>

definition asp_cell6 :: "solve_result \<Rightarrow> string list" where
  "asp_cell6 answer =
     (if satisfiable answer = Some True then [''Found a model!''] else [''Did not find a model!''])"

text \<open>The whole notebook: the calls made on the control object and the lines printed.\<close>

definition asp_notebook :: "(control \<Rightarrow> symbol list list \<times> solve_result) \<Rightarrow> control \<times> string list" where
  "asp_notebook solve =
     (case asp_cell5 solve asp_cell3 of
        (c, answer, printed) \<Rightarrow> (c, printed @ asp_cell6 answer))"

text \<open>The control object as \<^verbatim>\<open>control.solve\<close> finds it, and the programs added to one.\<close>

definition asp_solve_input :: control where
  "asp_solve_input = set_solve_models 1 asp_cell3"

definition added_programs :: "control \<Rightarrow> string list" where
  "added_programs c = concat (map (\<lambda>call. case call of Call_add _ _ p \<Rightarrow> [p] | _ \<Rightarrow> []) c)"

section \<open>The loops of the CSP notebook\<close>

text \<open>
  The variable loop of cell 3, for any list of keys: what it adds to the model and to
  the dictionary.
\<close>

lemma create_vars_model:
  "snd (create_vars is vars m) =
     m\<lparr>variables := variables m @
        map (\<lambda>i. \<lparr>var_lb = 1, var_ub = 3, var_name = ''x'' @ str_int i\<rparr>) is\<rparr>"
  by (induction "is" arbitrary: vars m) (simp_all add: NewIntVar_def)

lemma create_vars_dom: "dom (fst (create_vars is vars m)) = dom vars \<union> set is"
  by (induction "is" arbitrary: vars m) (auto simp: NewIntVar_def)

lemma create_vars_other:
  "i \<notin> set is \<Longrightarrow> fst (create_vars is vars m) i = vars i"
  by (induction "is" arbitrary: vars m) (auto simp: NewIntVar_def)

lemma create_vars_nth:
  "distinct is \<Longrightarrow> k < length is \<Longrightarrow>
     fst (create_vars is vars m) (is ! k) = Some (IntVar (length (variables m) + k))"
proof (induction "is" arbitrary: vars m k)
  case Nil
  then show ?case by simp
next
  case (Cons i "is")
  show ?case
  proof (cases k)
    case 0
    with Cons.prems show ?thesis
      by (simp add: NewIntVar_def create_vars_other)
  next
    case (Suc k')
    with Cons.prems Cons.IH [of k'] show ?thesis
      by (simp add: NewIntVar_def)
  qed
qed

lemma cell3_lookup:
  assumes "1 \<le> i" and "i \<le> nv"
  shows "fst (cell3 nv m) i = Some (IntVar (length (variables m) + nat (i - 1)))"
proof -
  have k: "nat (i - 1) < length [1 .. nv]" using assms by simp
  have "[1 .. nv] ! nat (i - 1) = i" using assms by (simp add: nth_upto)
  with create_vars_nth [OF distinct_upto k] show ?thesis
    by (simp add: cell3_def)
qed

lemma cell3_dom: "dom (fst (cell3 nv m)) = {1 .. nv}"
  by (simp add: cell3_def create_vars_dom)

lemma cell3_model:
  "snd (cell3 nv m) =
     m\<lparr>variables := variables m @
        map (\<lambda>i. \<lparr>var_lb = 1, var_ub = 3, var_name = ''x'' @ str_int i\<rparr>) [1 .. nv]\<rparr>"
  by (simp add: cell3_def create_vars_model)

text \<open>
  The constraint loop of cell 4: it either adds one constraint for each pair, in order,
  or stops at the first endpoint that is not a key.
\<close>

lemma cell4_model:
  "cell4 es vars m = Inr m' \<Longrightarrow>
     variables m' = variables m \<and>
     constraints m' =
       constraints m @ map (\<lambda>(i, j). NotEqual (the (vars i)) (the (vars j))) es \<and>
     (\<forall>(i, j) \<in> set es. vars i \<noteq> None \<and> vars j \<noteq> None)"
proof (induction es vars m rule: cell4.induct)
  case (1 vars m)
  then show ?case by simp
next
  case (2 i j es vars m)
  from "2.prems" obtain a b where a: "vars i = Some a" and b: "vars j = Some b"
    and rest: "cell4 es vars (Add (NotEqual a b) m) = Inr m'"
    by (auto split: option.splits)
  from "2.IH" [OF a b rest] a b show ?case
    by (simp add: Add_def)
qed

lemma cell4_succeeds:
  "\<forall>(i, j) \<in> set es. vars i \<noteq> None \<and> vars j \<noteq> None \<Longrightarrow> \<exists>m'. cell4 es vars m = Inr m'"
  by (induction es arbitrary: m) (auto split: option.splits)

lemma cell4_raises:
  "cell4 es vars m = Inl e \<Longrightarrow>
     \<exists>(i, j) \<in> set es. (vars i = None \<and> e = KeyError i) \<or> (vars j = None \<and> e = KeyError j)"
proof (induction es vars m rule: cell4.induct)
  case (1 vars m)
  then show ?case by simp
next
  case (2 i j es vars m)
  show ?case
  proof (cases "vars i")
    case None
    with "2.prems" show ?thesis by simp
  next
    case a: (Some a)
    show ?thesis
    proof (cases "vars j")
      case None
      with a "2.prems" show ?thesis by simp
    next
      case b: (Some b)
      with a "2.prems" have "cell4 es vars (Add (NotEqual a b) m) = Inl e" by simp
      from "2.IH" [OF a b this] show ?thesis by auto
    qed
  qed
qed

text \<open>The printing loop of cell 5.\<close>

lemma print_colors_all:
  "\<forall>i \<in> set is. vars i \<noteq> None \<Longrightarrow>
     print_colors s vars is = (map (\<lambda>i. color_line i (Value s (the (vars i)))) is, None)"
  by (induction "is") auto

lemma cell5_feasible:
  assumes "status (Solve m) = FEASIBLE" and "\<forall>i \<in> {1 .. nv}. vars i \<noteq> None"
  shows "cell5 Solve m vars nv =
     (''The graph is 3-colorable:'' #
        map (\<lambda>i. color_line i (Value (solution (Solve m)) (the (vars i)))) [1 .. nv], None)"
proof -
  from assms(2) have "\<forall>i \<in> set [1 .. nv]. vars i \<noteq> None" by simp
  from print_colors_all [OF this] assms(1) show ?thesis
    by (simp add: cell5_def)
qed

lemma cell5_other:
  "status (Solve m) \<noteq> FEASIBLE \<Longrightarrow>
     cell5 Solve m vars nv = ([''The graph is not 3-colorable!''], None)"
  by (simp add: cell5_def)

text \<open>The instance built by cells 1 to 4.\<close>

lemma instance_built:
  assumes "\<forall>(i, j) \<in> set es. 1 \<le> i \<and> i \<le> nv \<and> 1 \<le> j \<and> j \<le> nv"
  shows "\<exists>m. csp_instance nv es = Inr (m, fst (cell3 nv CpModel))"
proof -
  have "\<forall>(i, j) \<in> set es. fst (cell3 nv CpModel) i \<noteq> None \<and> fst (cell3 nv CpModel) j \<noteq> None"
    using assms by (auto simp: cell3_lookup)
  from cell4_succeeds [OF this] obtain m'
    where "cell4 es (fst (cell3 nv CpModel)) (snd (cell3 nv CpModel)) = Inr m'" by blast
  then show ?thesis
    by (auto simp: csp_instance_def split: prod.splits)
qed

lemma instance_parts:
  assumes "csp_instance nv es = Inr (m, vars)"
  shows "vars = fst (cell3 nv CpModel)"
    and "cell4 es vars (snd (cell3 nv CpModel)) = Inr m"
  using assms by (auto simp: csp_instance_def split: prod.splits sum.splits)

lemma instance_variables:
  assumes "csp_instance nv es = Inr (m, vars)"
  shows "variables m = map (\<lambda>i. \<lparr>var_lb = 1, var_ub = 3, var_name = ''x'' @ str_int i\<rparr>) [1 .. nv]"
  using cell4_model [OF instance_parts(2) [OF assms]]
  by (simp add: cell3_model CpModel_def)

lemma instance_lookup:
  assumes "csp_instance nv es = Inr (m, vars)" and "1 \<le> i" and "i \<le> nv"
  shows "vars i = Some (IntVar (nat (i - 1)))"
  using assms(2,3) by (simp add: instance_parts(1) [OF assms(1)] cell3_lookup CpModel_def)

lemma satisfies_iff:
  "satisfies m s \<longleftrightarrow> (\<forall>c \<in> set (constraints m). holds s c)"
  by (simp add: satisfies_def list_all_iff)

lemma satisfies_instance:
  assumes "csp_instance nv es = Inr (m, vars)"
  shows "satisfies m s \<longleftrightarrow>
      (\<forall>(i, j) \<in> set es. \<exists>a b. vars i = Some a \<and> vars j = Some b \<and> Value s a \<noteq> Value s b)"
proof -
  note parts = instance_parts [OF assms]
  from cell4_model [OF parts(2)]
  have cs: "constraints m = map (\<lambda>(i, j). NotEqual (the (vars i)) (the (vars j))) es"
    and keys: "\<forall>(i, j) \<in> set es. vars i \<noteq> None \<and> vars j \<noteq> None"
    by (simp_all add: cell3_model CpModel_def)
  from keys show ?thesis
    unfolding satisfies_iff cs by fastforce
qed

lemma csp_notebook_cell5:
  "csp_instance num_vertices edges = Inr (m, vars) \<Longrightarrow>
     csp_notebook Solve = cell5 Solve m vars num_vertices"
  by (simp add: csp_notebook_def)

text \<open>The notebook's own graph, and a graph with an edge to a vertex that does not exist.\<close>

lemma notebook_edges_in_range:
  "\<forall>(i, j) \<in> set edges. 1 \<le> i \<and> i \<le> num_vertices \<and> 1 \<le> j \<and> j \<le> num_vertices"
  by (simp add: edges_def num_vertices_def)

lemma notebook_instance:
  "csp_instance num_vertices edges =
     Inr (\<lparr>variables =
            [\<lparr>var_lb = 1, var_ub = 3, var_name = ''x1''\<rparr>, \<lparr>var_lb = 1, var_ub = 3, var_name = ''x2''\<rparr>,
             \<lparr>var_lb = 1, var_ub = 3, var_name = ''x3''\<rparr>, \<lparr>var_lb = 1, var_ub = 3, var_name = ''x4''\<rparr>],
          constraints =
            [NotEqual (IntVar 0) (IntVar 1), NotEqual (IntVar 0) (IntVar 2),
             NotEqual (IntVar 1) (IntVar 2), NotEqual (IntVar 1) (IntVar 3),
             NotEqual (IntVar 2) (IntVar 3)]\<rparr>,
          [1 \<mapsto> IntVar 0, 2 \<mapsto> IntVar 1, 3 \<mapsto> IntVar 2, 4 \<mapsto> IntVar 3])"
  by (simp add: csp_instance_def cell3_def num_vertices_def edges_def CpModel_def upto.simps
      NewIntVar_def Add_def str_int_def str_nat.simps digit_char_def eval_nat_numeral)

lemma missing_vertex_raises: "csp_instance 4 [(1, 2), (1, 5)] = Inl (KeyError 5)"
  by (simp add: csp_instance_def cell3_def CpModel_def upto.simps NewIntVar_def Add_def)

text \<open>
  Under the status \<open>FEASIBLE\<close> the notebook prints the heading and one line for each
  vertex, in increasing order; with the solution 1, 3, 2, 1 this is the output recorded
  in the notebook.
\<close>

lemma feasible_prints_coloring:
  assumes "csp_instance num_vertices edges = Inr (m, vars)" and "status (Solve m) = FEASIBLE"
  shows "(\<forall>i \<in> {1 .. num_vertices}. vars i \<noteq> None) \<and>
         csp_notebook Solve =
           (''The graph is 3-colorable:'' #
              map (\<lambda>i. color_line i (Value (solution (Solve m)) (the (vars i)))) [1 .. num_vertices],
            None)"
proof -
  have keys: "\<forall>i \<in> {1 .. num_vertices}. vars i \<noteq> None"
    by (simp add: instance_lookup [OF assms(1)])
  have "cell5 Solve m vars num_vertices =
      (''The graph is 3-colorable:'' #
         map (\<lambda>i. color_line i (Value (solution (Solve m)) (the (vars i)))) [1 .. num_vertices],
       None)"
    using assms(2) keys by (rule cell5_feasible)
  with keys show ?thesis
    by (simp add: csp_notebook_cell5 [OF assms(1)])
qed

lemma recorded_output:
  "csp_notebook (\<lambda>m. \<lparr>status = FEASIBLE, solution = (\<lambda>k. [1, 3, 2, 1] ! k)\<rparr>) =
     ([''The graph is 3-colorable:'',
       ''- Vertex 1 gets color 1'',
       ''- Vertex 2 gets color 3'',
       ''- Vertex 3 gets color 2'',
       ''- Vertex 4 gets color 1''], None)"
proof -
  let ?vars = "[1 \<mapsto> IntVar 0, 2 \<mapsto> IntVar 1, 3 \<mapsto> IntVar 2, 4 \<mapsto> IntVar (3::nat)]"
  from notebook_instance obtain m
    where m: "csp_instance num_vertices edges = Inr (m, ?vars)"
    by simp
  from feasible_prints_coloring [OF m, of "\<lambda>m. \<lparr>status = FEASIBLE, solution = (\<lambda>k. [1, 3, 2, 1] ! k)\<rparr>"]
  show ?thesis
    by (simp add: num_vertices_def upto.simps color_line_def Value_def str_int_def
        str_nat.simps digit_char_def)
qed

section \<open>Properties of the CSP notebook\<close>

text \<open>
  Claim C1.  Take the instance that cells 1 to 4 build from a vertex count and an edge
  list, the notebook's own graph among them.  An assignment that respects the domains
  of the model's variables gives every \<open>x\<^sub>i\<close> (the variable stored as \<^verbatim>\<open>vars[i]\<close>) a
  value in \<open>{1, 2, 3}\<close>, and it satisfies all constraints registered with the model if
  and only if, for every pair \<open>(i, j)\<close> of the edge list, the values of \<open>x\<^sub>i\<close> and
  \<open>x\<^sub>j\<close> differ: it is a proper 3-coloring of the graph.
\<close>

theorem constraints_encode_proper_coloring:
  assumes "csp_instance nv es = Inr (m, vars)" and "in_domains m s"
  shows "(\<forall>i \<in> {1 .. nv}. \<exists>x. vars i = Some x \<and> Value s x \<in> {1, 2, 3}) \<and>
         (satisfies m s \<longleftrightarrow>
            (\<forall>(i, j) \<in> set es. \<exists>a b. vars i = Some a \<and> vars j = Some b \<and> Value s a \<noteq> Value s b))"
proof -
  have dom_s: "\<exists>x. vars i = Some x \<and> Value s x \<in> {1, 2, 3}" if i: "i \<in> {1 .. nv}" for i
  proof -
    from i have lk: "vars i = Some (IntVar (nat (i - 1)))"
      by (simp add: instance_lookup [OF assms(1)])
    from i have lt: "nat (i - 1) < length (variables m)"
      by (simp add: instance_variables [OF assms(1)])
    with assms(2) have "var_lb (variables m ! nat (i - 1)) \<le> s (nat (i - 1)) \<and>
        s (nat (i - 1)) \<le> var_ub (variables m ! nat (i - 1))"
      by (simp add: in_domains_def list_all_iff)
    moreover from i have "variables m ! nat (i - 1) =
        \<lparr>var_lb = 1, var_ub = 3, var_name = ''x'' @ str_int ([1 .. nv] ! nat (i - 1))\<rparr>"
      by (simp add: instance_variables [OF assms(1)])
    ultimately have "1 \<le> s (nat (i - 1)) \<and> s (nat (i - 1)) \<le> 3" by simp
    then have "s (nat (i - 1)) \<in> {1, 2, 3}" by auto
    with lk show ?thesis by (simp add: Value_def)
  qed
  from satisfies_instance [OF assms(1)]
  have sat: "satisfies m s \<longleftrightarrow>
      (\<forall>(i, j) \<in> set es. \<exists>a b. vars i = Some a \<and> vars j = Some b \<and> Value s a \<noteq> Value s b)" .
  from dom_s sat show ?thesis by blast
qed

theorem constraints_encode_proper_coloring_witness:
  "\<exists>m vars. csp_instance num_vertices edges = Inr (m, vars) \<and>
     in_domains m (\<lambda>k. [1, 3, 2, 1] ! k) \<and> satisfies m (\<lambda>k. [1, 3, 2, 1] ! k) \<and>
     in_domains m (\<lambda>k. [1, 2, 2, 1] ! k) \<and> \<not> satisfies m (\<lambda>k. [1, 2, 2, 1] ! k)"
proof -
  let ?vars = "[1 \<mapsto> IntVar 0, 2 \<mapsto> IntVar 1, 3 \<mapsto> IntVar 2, 4 \<mapsto> IntVar (3::nat)]"
  from notebook_instance obtain m
    where m: "csp_instance num_vertices edges = Inr (m, ?vars)"
      and vs: "variables m =
            [\<lparr>var_lb = 1, var_ub = 3, var_name = ''x1''\<rparr>, \<lparr>var_lb = 1, var_ub = 3, var_name = ''x2''\<rparr>,
             \<lparr>var_lb = 1, var_ub = 3, var_name = ''x3''\<rparr>, \<lparr>var_lb = 1, var_ub = 3, var_name = ''x4''\<rparr>]"
    by simp
  have good: "in_domains m (\<lambda>k. [1, 3, 2, 1] ! k)" and bad: "in_domains m (\<lambda>k. [1, 2, 2, 1] ! k)"
    by (simp_all add: in_domains_def vs upt_conv_Cons)
  from constraints_encode_proper_coloring [OF m good]
  have "satisfies m (\<lambda>k. [1, 3, 2, 1] ! k)"
    by (simp add: edges_def Value_def)
  moreover from constraints_encode_proper_coloring [OF m bad]
  have "\<not> satisfies m (\<lambda>k. [1, 2, 2, 1] ! k)"
    by (simp add: edges_def Value_def)
  ultimately show ?thesis using m good bad by blast
qed

text \<open>
  Claim C2.  The notebook prints the coloring only when the status returned by
  \<^verbatim>\<open>solver.Solve(model)\<close> is \<open>FEASIBLE\<close>: for every other status, \<open>OPTIMAL\<close> among them,
  its whole output is the line \<^verbatim>\<open>The graph is not 3-colorable!\<close>, and a line of the
  coloring in the output means that the status was \<open>FEASIBLE\<close>.
\<close>

theorem coloring_printed_only_if_feasible:
  assumes "csp_instance num_vertices edges = Inr (m, vars)"
  shows "(status (Solve m) \<noteq> FEASIBLE \<longrightarrow>
            csp_notebook Solve = ([''The graph is not 3-colorable!''], None)) \<and>
         (status (Solve m) = OPTIMAL \<longrightarrow>
            csp_notebook Solve = ([''The graph is not 3-colorable!''], None)) \<and>
         ((\<exists>i c. color_line i c \<in> set (fst (csp_notebook Solve))) \<longrightarrow>
            status (Solve m) = FEASIBLE)"
proof -
  have other: "csp_notebook Solve = ([''The graph is not 3-colorable!''], None)"
    if "status (Solve m) \<noteq> FEASIBLE"
    using that by (simp add: csp_notebook_cell5 [OF assms] cell5_other)
  have "color_line i c \<noteq> ''The graph is not 3-colorable!''" for i c
    by (simp add: color_line_def)
  with other have "status (Solve m) = FEASIBLE"
    if "\<exists>i c. color_line i c \<in> set (fst (csp_notebook Solve))"
    using that by (cases "status (Solve m) = FEASIBLE") auto
  with other show ?thesis by simp
qed

theorem coloring_printed_only_if_feasible_witness:
  "csp_notebook (\<lambda>m. \<lparr>status = OPTIMAL, solution = (\<lambda>k. [1, 3, 2, 1] ! k)\<rparr>) =
     ([''The graph is not 3-colorable!''], None) \<and>
   csp_notebook (\<lambda>m. \<lparr>status = INFEASIBLE, solution = (\<lambda>k. 0)\<rparr>) =
     ([''The graph is not 3-colorable!''], None)"
proof -
  from instance_built [OF notebook_edges_in_range] obtain m
    where m: "csp_instance num_vertices edges = Inr (m, fst (cell3 num_vertices CpModel))"
    by blast
  from coloring_printed_only_if_feasible [OF m, of "\<lambda>m. \<lparr>status = OPTIMAL, solution = (\<lambda>k. [1, 3, 2, 1] ! k)\<rparr>"]
    coloring_printed_only_if_feasible [OF m, of "\<lambda>m. \<lparr>status = INFEASIBLE, solution = (\<lambda>k. 0)\<rparr>"]
  show ?thesis by simp
qed

text \<open>
  Claim C3.  Cell 3 creates, for every \<open>i\<close> from 1 to \<open>nv\<close>, one variable with bounds 1
  and 3, that is with domain \<open>{1, 2, 3}\<close>, named \<^verbatim>\<open>x\<close> followed by \<open>i\<close>, and stores it
  under key \<open>i\<close>; the variables of the model grow by exactly these, in the order of the
  keys, and the dictionary has no other key.
\<close>

theorem one_variable_per_vertex:
  assumes "cell3 nv m = (vars, m')"
  shows "dom vars = {1 .. nv} \<and>
     variables m' = variables m @
        map (\<lambda>i. \<lparr>var_lb = 1, var_ub = 3, var_name = ''x'' @ str_int i\<rparr>) [1 .. nv] \<and>
     constraints m' = constraints m \<and>
     (\<forall>i \<in> {1 .. nv}. \<exists>k. vars i = Some (IntVar k) \<and> k = length (variables m) + nat (i - 1) \<and>
        k < length (variables m') \<and>
        {var_lb (variables m' ! k) .. var_ub (variables m' ! k)} = {1, 2, 3})"
proof -
  from assms have v: "vars = fst (cell3 nv m)" and m': "m' = snd (cell3 nv m)" by simp_all
  have d: "dom vars = {1 .. nv}" by (simp add: v cell3_dom)
  have vs: "variables m' = variables m @
        map (\<lambda>i. \<lparr>var_lb = 1, var_ub = 3, var_name = ''x'' @ str_int i\<rparr>) [1 .. nv]"
    and cs: "constraints m' = constraints m"
    by (simp_all add: m' cell3_model)
  have "\<exists>k. vars i = Some (IntVar k) \<and> k = length (variables m) + nat (i - 1) \<and>
        k < length (variables m') \<and>
        {var_lb (variables m' ! k) .. var_ub (variables m' ! k)} = {1, 2, 3}"
    if i: "i \<in> {1 .. nv}" for i
  proof -
    let ?k = "length (variables m) + nat (i - 1)"
    from i have lk: "vars i = Some (IntVar ?k)" by (simp add: v cell3_lookup)
    from i have lt: "nat (i - 1) < length [1 .. nv]" by simp
    then have "variables m' ! ?k =
        \<lparr>var_lb = 1, var_ub = 3, var_name = ''x'' @ str_int ([1 .. nv] ! nat (i - 1))\<rparr>"
      by (simp add: vs nth_append)
    moreover have "{1 .. 3 :: int} = {1, 2, 3}" by auto
    ultimately show ?thesis using lk lt by (simp add: vs)
  qed
  with d vs cs show ?thesis by blast
qed

theorem one_variable_per_vertex_witness:
  "dom (fst (cell3 num_vertices CpModel)) = {1 .. 4} \<and>
   variables (snd (cell3 num_vertices CpModel)) =
     [\<lparr>var_lb = 1, var_ub = 3, var_name = ''x1''\<rparr>, \<lparr>var_lb = 1, var_ub = 3, var_name = ''x2''\<rparr>,
      \<lparr>var_lb = 1, var_ub = 3, var_name = ''x3''\<rparr>, \<lparr>var_lb = 1, var_ub = 3, var_name = ''x4''\<rparr>] \<and>
   constraints (snd (cell3 num_vertices CpModel)) = []"
  using one_variable_per_vertex [of num_vertices CpModel
      "fst (cell3 num_vertices CpModel)" "snd (cell3 num_vertices CpModel)"]
  by (simp add: num_vertices_def CpModel_def upto.simps str_int_def str_nat.simps digit_char_def)

text \<open>
  Claim C4.  The constraints of the built model correspond one to one, and in order,
  to the pairs of the edge list: the constraint for \<open>(i, j)\<close> states that the variable
  stored for \<open>i\<close> is unequal to the variable stored for \<open>j\<close>, and the model holds no
  other constraint.
\<close>

theorem one_constraint_per_edge:
  assumes "csp_instance nv es = Inr (m, vars)"
  shows "list_all2 (\<lambda>c (i, j). \<exists>a b. vars i = Some a \<and> vars j = Some b \<and> c = NotEqual a b)
           (constraints m) es"
proof -
  note parts = instance_parts [OF assms]
  from cell4_model [OF parts(2)]
  have cs: "constraints m = map (\<lambda>(i, j). NotEqual (the (vars i)) (the (vars j))) es"
    and keys: "\<forall>(i, j) \<in> set es. vars i \<noteq> None \<and> vars j \<noteq> None"
    by (simp_all add: cell3_model CpModel_def)
  from keys show ?thesis
    unfolding cs list_all2_map1 by (intro list_all2_same [THEN iffD2]) auto
qed

theorem one_constraint_per_edge_witness:
  "\<exists>m vars. csp_instance num_vertices edges = Inr (m, vars) \<and>
     constraints m =
       [NotEqual (IntVar 0) (IntVar 1), NotEqual (IntVar 0) (IntVar 2),
        NotEqual (IntVar 1) (IntVar 2), NotEqual (IntVar 1) (IntVar 3),
        NotEqual (IntVar 2) (IntVar 3)]"
proof -
  from instance_built [OF notebook_edges_in_range] obtain m
    where m: "csp_instance num_vertices edges = Inr (m, fst (cell3 num_vertices CpModel))"
    by blast
  have v: "fst (cell3 num_vertices CpModel) = [1 \<mapsto> IntVar 0, 2 \<mapsto> IntVar 1, 3 \<mapsto> IntVar 2, 4 \<mapsto> IntVar 3]"
    by (simp add: cell3_def num_vertices_def CpModel_def upto.simps NewIntVar_def eval_nat_numeral)
  from one_constraint_per_edge [OF m]
  have "constraints m =
       [NotEqual (IntVar 0) (IntVar 1), NotEqual (IntVar 0) (IntVar 2),
        NotEqual (IntVar 1) (IntVar 2), NotEqual (IntVar 1) (IntVar 3),
        NotEqual (IntVar 2) (IntVar 3)]"
    by (simp add: v edges_def list_all2_Cons2)
  with m show ?thesis by blast
qed

text \<open>
  Claim C6.  The notebook encodes a graph on four vertices: \<open>num_vertices\<close> is 4 and
  both endpoints of every pair of the edge list lie between 1 and 4.
\<close>

theorem graph_has_four_vertices:
  "num_vertices = 4 \<and> (\<forall>(i, j) \<in> set edges. 1 \<le> i \<and> i \<le> 4 \<and> 1 \<le> j \<and> j \<le> 4)"
  by (simp add: num_vertices_def edges_def)

theorem graph_has_four_vertices_witness:
  "(2, 4) \<in> set edges \<and> (1::int) \<le> 2 \<and> (2::int) \<le> 4 \<and> (1::int) \<le> 4 \<and> (4::int) \<le> 4
     \<and> num_vertices = 4"
proof -
  have mem: "(2, 4) \<in> set edges" by (simp add: edges_def)
  from graph_has_four_vertices
  have nv: "num_vertices = 4"
    and all: "\<forall>(i, j) \<in> set edges. 1 \<le> i \<and> i \<le> 4 \<and> 1 \<le> j \<and> j \<le> 4"
    by blast+
  from all mem have "(1::int) \<le> 2 \<and> (2::int) \<le> 4 \<and> (1::int) \<le> 4 \<and> (4::int) \<le> 4"
    by blast
  with mem nv show ?thesis by blast
qed

text \<open>
  Claim C7.  When the solver reports a solution, the notebook should print one line for
  each vertex with the value given to its variable.  It does not when the status is
  \<open>OPTIMAL\<close>: run on its own graph with a solver that answers \<open>OPTIMAL\<close> and holds the
  proper coloring 1, 3, 2, 1, which respects the domains and satisfies every registered
  constraint, the notebook prints the single line \<^verbatim>\<open>The graph is not 3-colorable!\<close>
  and no line for any vertex.
\<close>

theorem optimal_solution_not_printed:
  "\<exists>m vars. csp_instance num_vertices edges = Inr (m, vars) \<and>
     reports_solution OPTIMAL \<and>
     in_domains m (\<lambda>k. [1, 3, 2, 1] ! k) \<and>
     satisfies m (\<lambda>k. [1, 3, 2, 1] ! k) \<and>
     csp_notebook (\<lambda>m. \<lparr>status = OPTIMAL, solution = (\<lambda>k. [1, 3, 2, 1] ! k)\<rparr>) =
       ([''The graph is not 3-colorable!''], None)"
proof -
  let ?vars = "[1 \<mapsto> IntVar 0, 2 \<mapsto> IntVar 1, 3 \<mapsto> IntVar 2, 4 \<mapsto> IntVar (3::nat)]"
  let ?Solve = "\<lambda>m :: cp_model. \<lparr>status = OPTIMAL, solution = (\<lambda>k. [1, 3, 2, 1 :: int] ! k)\<rparr>"
  from notebook_instance obtain m
    where m: "csp_instance num_vertices edges = Inr (m, ?vars)"
      and vs: "variables m =
            [\<lparr>var_lb = 1, var_ub = 3, var_name = ''x1''\<rparr>, \<lparr>var_lb = 1, var_ub = 3, var_name = ''x2''\<rparr>,
             \<lparr>var_lb = 1, var_ub = 3, var_name = ''x3''\<rparr>, \<lparr>var_lb = 1, var_ub = 3, var_name = ''x4''\<rparr>]"
    by simp
  have rep: "reports_solution (status (?Solve m))"
    by (simp add: reports_solution_def)
  have dom: "in_domains m (solution (?Solve m))"
    by (simp add: in_domains_def vs upt_conv_Cons)
  have sat: "satisfies m (solution (?Solve m))"
    unfolding satisfies_instance [OF m] by (simp add: edges_def Value_def)
  have "status (?Solve m) \<noteq> FEASIBLE" by simp
  then have "cell5 ?Solve m ?vars num_vertices = ([''The graph is not 3-colorable!''], None)"
    by (rule cell5_other)
  then have out: "csp_notebook ?Solve = ([''The graph is not 3-colorable!''], None)"
    by (simp add: csp_notebook_cell5 [OF m])
  from rep dom sat have "reports_solution OPTIMAL"
    and "in_domains m (\<lambda>k. [1, 3, 2, 1] ! k)" and "satisfies m (\<lambda>k. [1, 3, 2, 1] ! k)"
    by simp_all
  with m out show ?thesis by blast
qed

text \<open>
  Claim C10.  Every endpoint of the edge list is a key of the dictionary that cell 3
  builds, so every lookup of cell 4 succeeds and the cell ends without \<^verbatim>\<open>KeyError\<close>.
\<close>

theorem edge_endpoints_are_keys:
  assumes "cell3 num_vertices CpModel = (vars, m)"
  shows "dom vars = {1 .. num_vertices} \<and>
         (\<forall>(i, j) \<in> set edges. i \<in> dom vars \<and> j \<in> dom vars) \<and>
         (\<exists>m'. cell4 edges vars m = Inr m')"
proof -
  from assms have v: "vars = fst (cell3 num_vertices CpModel)" by simp
  have d: "dom vars = {1 .. num_vertices}" by (simp add: v cell3_dom)
  have keys: "\<forall>(i, j) \<in> set edges. i \<in> dom vars \<and> j \<in> dom vars"
    using notebook_edges_in_range unfolding d by auto
  then have "\<forall>(i, j) \<in> set edges. vars i \<noteq> None \<and> vars j \<noteq> None"
    by (auto simp: dom_def)
  from cell4_succeeds [OF this] d keys show ?thesis by blast
qed

theorem edge_endpoints_are_keys_witness:
  "(2, 4) \<in> set edges \<and>
   2 \<in> dom (fst (cell3 num_vertices CpModel)) \<and> 4 \<in> dom (fst (cell3 num_vertices CpModel)) \<and>
   (\<exists>m'. cell4 edges (fst (cell3 num_vertices CpModel)) (snd (cell3 num_vertices CpModel)) = Inr m')"
proof -
  have mem: "(2, 4) \<in> set edges" by (simp add: edges_def)
  have run: "cell3 num_vertices CpModel =
      (fst (cell3 num_vertices CpModel), snd (cell3 num_vertices CpModel))" by simp
  from edge_endpoints_are_keys [OF run]
  have all: "\<forall>(i, j) \<in> set edges. i \<in> dom (fst (cell3 num_vertices CpModel)) \<and>
               j \<in> dom (fst (cell3 num_vertices CpModel))"
    and ok: "\<exists>m'. cell4 edges (fst (cell3 num_vertices CpModel)) (snd (cell3 num_vertices CpModel)) = Inr m'"
    by blast+
  from all mem have "2 \<in> dom (fst (cell3 num_vertices CpModel)) \<and> 4 \<in> dom (fst (cell3 num_vertices CpModel))"
    by blast
  with mem ok show ?thesis by blast
qed

section \<open>Properties of the ASP notebook\<close>

lemma atom_line_neq: "atom_line a \<noteq> ''Found a model!''" "atom_line a \<noteq> ''Did not find a model!''"
  by (simp_all add: atom_line_def)

lemma on_model_lines:
  "''Found a model!'' \<notin> set (on_model model)"
  "''Did not find a model!'' \<notin> set (on_model model)"
  by (auto simp: on_model_def atom_line_neq atom_line_neq [symmetric])

lemma asp_notebook_output:
  "snd (asp_notebook solve) =
     concat (map on_model (fst (solve asp_solve_input))) @ asp_cell6 (snd (solve asp_solve_input))"
  by (simp add: asp_notebook_def asp_cell5_def asp_solve_input_def case_prod_unfold Let_def)

text \<open>
  Claim C5.  The notebook passes its program to the solver as it is: the calls on the
  control object are \<^verbatim>\<open>add\<close>, \<^verbatim>\<open>ground\<close>, the setting of the number of models and
  \<^verbatim>\<open>solve\<close>, the only program ever added is the string \<open>asp_program\<close>, and that string is
  one fixed constant.
\<close>

theorem program_passed_verbatim:
  "fst (asp_notebook solve) =
     [Call_add ''base'' [] asp_program, Call_ground [(''base'', [])], Set_solve_models 1, Call_solve] \<and>
   added_programs (fst (asp_notebook solve)) = [asp_program] \<and>
   asp_program =
     ''#const k=3.\<newline>number(1..k).\<newline>left(X) :- not right(X), number(X).\<newline>right(X) :- not left(X), number(X).\<newline>:- right(2).''"
  by (simp add: asp_notebook_def asp_cell5_def asp_cell3_def Control_def add_def ground_def
      set_solve_models_def added_programs_def asp_program_def split: prod.splits)

text \<open>
  Claim C9.  The notebook prints \<^verbatim>\<open>Found a model!\<close> if and only if the attribute
  \<^verbatim>\<open>satisfiable\<close> of the answer is \<^verbatim>\<open>True\<close>; for \<^verbatim>\<open>False\<close> and for \<^verbatim>\<open>None\<close> it prints
  \<^verbatim>\<open>Did not find a model!\<close>.  The message is the last line, after the lines of
  \<^verbatim>\<open>on_model\<close>.
\<close>

theorem found_a_model_iff_satisfiable:
  "(''Found a model!'' \<in> set (snd (asp_notebook solve))
      \<longleftrightarrow> satisfiable (snd (solve asp_solve_input)) = Some True) \<and>
   (''Did not find a model!'' \<in> set (snd (asp_notebook solve))
      \<longleftrightarrow> satisfiable (snd (solve asp_solve_input)) \<noteq> Some True) \<and>
   snd (asp_notebook solve) =
     concat (map on_model (fst (solve asp_solve_input))) @
       [if satisfiable (snd (solve asp_solve_input)) = Some True
        then ''Found a model!'' else ''Did not find a model!'']"
  unfolding asp_notebook_output
  by (simp add: on_model_lines asp_cell6_def)

theorem found_a_model_iff_satisfiable_witness:
  "snd (asp_notebook (\<lambda>c. ([[Symbol ''number'' [Symbol [] [] ''1'' ''1''] ''number(1)'' ''number(1)'',
                              Symbol ''left'' [Symbol [] [] ''2'' ''2''] ''left(2)'' ''left(2)'']],
                            \<lparr>satisfiable = Some True\<rparr>))) =
     [''Atom with name number and arguments [1] is true in the model: number(1)'',
      ''Atom with name left and arguments [2] is true in the model: left(2)'',
      ''Found a model!''] \<and>
   snd (asp_notebook (\<lambda>c. ([], \<lparr>satisfiable = Some False\<rparr>))) = [''Did not find a model!''] \<and>
   snd (asp_notebook (\<lambda>c. ([], \<lparr>satisfiable = None\<rparr>))) = [''Did not find a model!'']"
  using
    found_a_model_iff_satisfiable [of "\<lambda>c. ([[Symbol ''number'' [Symbol [] [] ''1'' ''1''] ''number(1)'' ''number(1)'',
                              Symbol ''left'' [Symbol [] [] ''2'' ''2''] ''left(2)'' ''left(2)'']],
                            \<lparr>satisfiable = Some True\<rparr>)"]
    found_a_model_iff_satisfiable [of "\<lambda>c. ([], \<lparr>satisfiable = Some False\<rparr>)"]
    found_a_model_iff_satisfiable [of "\<lambda>c. ([], \<lparr>satisfiable = None\<rparr>)"]
  by (simp add: on_model_def atom_line_def str_list_def)

end
